theory Spec2Isabelle
  imports Main
begin

section \<open>The versioned-record protocol of package passw0rd\<close>

text \<open>
  This theory embeds \<^verbatim>\<open>protocol.go\<close> and \<^verbatim>\<open>models.go\<close>. The orchestrator ties
  together three collaborators that live outside the package: \<^verbatim>\<open>encoding/json\<close>, the
  cryptographic library \<^verbatim>\<open>phe-go\<close> and the HTTP client of the remote service. They are
  opaque here: their values are type variables and their functions are fields of an
  environment record, so every theorem about the orchestrator holds for whatever they
  compute.

  Go conventions made explicit:
  \<^item> a pointer is an \<open>option\<close>, \<open>None\<close> being \<^verbatim>\<open>nil\<close>; reading a field through a nil
    pointer is the outcome \<open>Panicked NilPointerDereference\<close>;
  \<^item> a map is \<open>(int \<rightharpoonup> v) option\<close>, \<open>None\<close> being the nil map, which Go distinguishes
    from a map without entries (\<open>Some Map.empty\<close>);
  \<^item> a multiple return \<^verbatim>\<open>(x, err)\<close> is a tuple of options, so that \<^verbatim>\<open>(nil, nil)\<close> is a
    value like any other;
  \<^item> \<^verbatim>\<open>int\<close> is \<open>int\<close>: the only arithmetic is \<^verbatim>\<open>recVersion + 1\<close> under the loop guard
    \<^verbatim>\<open>recVersion < p.CurrentVersion\<close>, where the sum is at most \<^verbatim>\<open>p.CurrentVersion\<close>
    and cannot wrap;
  \<^item> every call that leaves the function body (registry lookup, cryptographic
    computation, remote call) is appended to a log returned next to the result, so that
    "performs no remote call" is a statement about that log.
\<close>

subsection \<open>Errors and outcomes\<close>

type_synonym bytes = string

text \<open>
  Modelled from the spec: the constructor \<open>ErrInvalidPassword\<close> is the package-level
  sentinel that \<^verbatim>\<open>protocol.go:145\<close> returns; its declaration is in a file of the package
  that is not part of the sources at hand, and the spec calls it \<open>InvalidPassword\<close>. A
  sentinel is allocated once when the package is initialised, so it is no value that
  \<^verbatim>\<open>errors.New\<close>, \<^verbatim>\<open>fmt.Errorf\<close> or \<^verbatim>\<open>errors.Wrap\<close> return later: a constructor of its
  own. The other constructors are the error values as the source builds them:
  \<^verbatim>\<open>errors.New(msg)\<close>, \<^verbatim>\<open>fmt.Errorf(format, n)\<close> (kept as format and argument),
  \<^verbatim>\<open>errors.Wrap(cause, msg)\<close>, and \<open>Foreign\<close> for an error made by a collaborator.
\<close>

datatype error =
    ErrorsNew string
  | Errorf string int
  | Wrap error string
  | Foreign string
  | ErrInvalidPassword

datatype panic = NilPointerDereference

datatype 'x outcome = Panicked panic | Returned 'x

text \<open>\<^verbatim>\<open>errors.Wrap\<close> of \<^verbatim>\<open>github.com/pkg/errors\<close> returns nil when the error it is given is nil.\<close>

definition errors_Wrap :: "error option \<Rightarrow> string \<Rightarrow> error option" where
  "errors_Wrap err message = (case err of None \<Rightarrow> None | Some e \<Rightarrow> Some (Wrap e message))"

text \<open>\<^verbatim>\<open>len\<close> of a byte slice; the nil slice has length 0.\<close>

definition len :: "bytes option \<Rightarrow> nat" where
  "len b = (case b of None \<Rightarrow> 0 | Some xs \<Rightarrow> length xs)"

subsection \<open>The cryptographic client\<close>

text \<open>The three methods of \<^verbatim>\<open>*phe.Client\<close> that the protocol calls.\<close>

record ('r, 's, 'q, 'a) Client =
  Client_EnrollAccount :: "bytes \<Rightarrow> 's option \<Rightarrow> 'r option \<times> bytes option \<times> error option"
  Client_CreateVerifyPasswordRequest :: "bytes \<Rightarrow> 'r option \<Rightarrow> 'q option \<times> error option"
  Client_CheckResponseAndDecrypt ::
    "bytes \<Rightarrow> 'r option \<Rightarrow> 'a option \<Rightarrow> bytes option \<times> error option"

subsection \<open>Context and Protocol\<close>

text \<open>
  Modelled from the spec: the struct \<^verbatim>\<open>Context\<close> is declared outside the sources at hand.
  \<^verbatim>\<open>NewProtocol\<close> reads four of its fields, whose types are those of the \<^verbatim>\<open>Protocol\<close>
  fields they are assigned to.
\<close>

record ('r, 't, 's, 'q, 'a) Context =
  AppId :: string
  PHEClients :: "(int \<rightharpoonup> ('r, 's, 'q, 'a) Client option) option"
  UpdateTokens :: "(int \<rightharpoonup> 't option) option"
  Version :: int

record ('r, 't, 's, 'q, 'a) Protocol =
  AppID :: string
  PHEClients :: "(int \<rightharpoonup> ('r, 's, 'q, 'a) Client option) option"
  UpdateTokens :: "(int \<rightharpoonup> 't option) option"
  CurrentVersion :: int

subsection \<open>The envelopes of models.go\<close>

text \<open>
  The payload types of \<^verbatim>\<open>phe-go\<close> are type variables: \<open>'r\<close> for \<^verbatim>\<open>phe.EnrollmentRecord\<close>,
  \<open>'t\<close> for \<^verbatim>\<open>phe.UpdateToken\<close>, \<open>'s\<close> for \<^verbatim>\<open>phe.EnrollmentResponse\<close>, \<open>'q\<close> for
  \<^verbatim>\<open>phe.VerifyPasswordRequest\<close> and \<open>'a\<close> for \<^verbatim>\<open>phe.VerifyPasswordResponse\<close>. Several structs
  have a field \<^verbatim>\<open>Version\<close>; the unqualified name is the one of \<open>EnrollmentRecord\<close>,
  declared last.
\<close>

record EnrollmentRequest =
  Version :: int

record 's EnrollmentResponse =
  Version :: int
  Enrollment :: "'s option"

record 'q VerifyPasswordRequest =
  Version :: int
  Request :: "'q option"

record 'a VerifyPasswordResponse =
  Response :: "'a option"

record 'r EnrollmentRecord =
  Version :: int
  Enrollment :: "'r option"

subsection \<open>Collaborators\<close>

text \<open>
  \<^verbatim>\<open>json.Unmarshal\<close> into a \<^verbatim>\<open>*EnrollmentRecord\<close> either fails or leaves the pointer set,
  possibly to nil (the JSON literal \<^verbatim>\<open>null\<close> sets a pointer to nil without an error);
  \<^verbatim>\<open>json.Marshal\<close> either fails or returns the bytes. \<^verbatim>\<open>phe.UpdateRecord\<close> is called with a
  token already checked against nil. The two requests of \<^verbatim>\<open>*APIClient\<close> answer with a
  response pointer and an error. The handle \<^verbatim>\<open>p.APIClient\<close>, built once by \<^verbatim>\<open>getClient\<close>
  under \<^verbatim>\<open>sync.Once\<close>, is not a value of the model: what the service answers is.
\<close>

record ('r, 't, 's, 'q, 'a) env =
  json_Unmarshal :: "bytes \<Rightarrow> error + 'r EnrollmentRecord option"
  json_Marshal :: "'r EnrollmentRecord \<Rightarrow> error + bytes"
  phe_UpdateRecord :: "'r option \<Rightarrow> 't \<Rightarrow> 'r option \<times> error option"
  APIClient_GetEnrollment :: "EnrollmentRequest \<Rightarrow> 's EnrollmentResponse option \<times> error option"
  APIClient_VerifyPassword ::
    "'q VerifyPasswordRequest \<Rightarrow> 'a VerifyPasswordResponse option \<times> error option"

text \<open>The calls an operation makes, in the order it makes them.\<close>

datatype ('r, 't) event =
    Call_GetEnrollment int
  | Call_VerifyPassword int
  | Call_getPHE int
  | Call_getToken int
  | Call_EnrollAccount
  | Call_CreateVerifyPasswordRequest
  | Call_CheckResponseAndDecrypt
  | Call_UpdateRecord "'r option" 't

subsection \<open>Construction and lookups\<close>

definition NewProtocol ::
  "('r, 't, 's, 'q, 'a) Context option \<Rightarrow> ('r, 't, 's, 'q, 'a) Protocol option \<times> error option"
where
  "NewProtocol context =
     (case context of
        None \<Rightarrow> (None, Some (ErrorsNew ''invalid context''))
      | Some c \<Rightarrow>
          if Context.AppId c = '''' \<or> Context.PHEClients c = None
          then (None, Some (ErrorsNew ''invalid context''))
          else (Some \<lparr>AppID = Context.AppId c,
                      PHEClients = Context.PHEClients c,
                      UpdateTokens = Context.UpdateTokens c,
                      CurrentVersion = Context.Version c\<rparr>, None))"

text \<open>
  Reading a key of a nil map gives \<^verbatim>\<open>ok = false\<close>. A key that is present may hold a nil
  pointer, which both lookups return as it is.
\<close>

definition getPHE ::
  "('r, 't, 's, 'q, 'a) Protocol \<Rightarrow> int \<Rightarrow> ('r, 's, 'q, 'a) Client option"
where
  "getPHE p version =
     (case Protocol.PHEClients p of
        None \<Rightarrow> None
      | Some m \<Rightarrow> (case m version of None \<Rightarrow> None | Some phe \<Rightarrow> phe))"

definition getToken :: "('r, 't, 's, 'q, 'a) Protocol \<Rightarrow> int \<Rightarrow> 't option" where
  "getToken p version =
     (case Protocol.UpdateTokens p of
        None \<Rightarrow> None
      | Some m \<Rightarrow> (case m version of None \<Rightarrow> None | Some token \<Rightarrow> token))"

definition getCurrentPHE ::
  "('r, 't, 's, 'q, 'a) Protocol \<Rightarrow> ('r, 's, 'q, 'a) Client option"
where
  "getCurrentPHE p =
     (case Protocol.PHEClients p of
        None \<Rightarrow> None
      | Some m \<Rightarrow> (case m (CurrentVersion p) of None \<Rightarrow> None | Some phe \<Rightarrow> phe))"

subsection \<open>EnrollAccount\<close>


subsection \<open>VerifyPassword\<close>

definition VerifyPassword ::
  "('r, 't, 's, 'q, 'a) env \<Rightarrow> ('r, 't, 's, 'q, 'a) Protocol \<Rightarrow> bytes \<Rightarrow> bytes \<Rightarrow>
     (bytes option \<times> error option) outcome \<times> ('r, 't) event list"
where
  "VerifyPassword env p password enrollmentRecord =
     (case json_Unmarshal env enrollmentRecord of
        Inl err \<Rightarrow> (Returned (None, Some err), [])
      | Inr None \<Rightarrow> (Panicked NilPointerDereference, [])
      | Inr (Some rec) \<Rightarrow>
          if Version rec \<noteq> CurrentVersion p
          then (Returned (None, Some (ErrorsNew ''version mismatch'')), [])
          else
            (let log1 = [Call_getPHE (Version rec)]
             in (case getPHE p (Version rec) of
               None \<Rightarrow>
                 (Returned (None,
                    Some (ErrorsNew
                      ''unable to find keys corresponding to this record's version'')), log1)
             | Some phe \<Rightarrow>
                 (let log2 = log1 @ [Call_CreateVerifyPasswordRequest]
                  in (case Client_CreateVerifyPasswordRequest phe password (Enrollment rec)
                      of (req, err) \<Rightarrow>
                    if err \<noteq> None
                    then (Returned (None,
                            errors_Wrap err ''could not create verify password request''), log2)
                    else
                      (let versionedReq =
                             \<lparr>VerifyPasswordRequest.Version = Version rec, Request = req\<rparr>;
                           log3 = log2 @ [Call_VerifyPassword (Version rec)]
                       in (case APIClient_VerifyPassword env versionedReq of (resp, err) \<Rightarrow>
                         if err \<noteq> None \<or> resp = None
                         then (Returned (None,
                                 errors_Wrap err ''error while requesting service''), log3)
                         else (case resp of
                           None \<Rightarrow> (Panicked NilPointerDereference, log3)
                         | Some resp \<Rightarrow>
                             (let log4 = log3 @ [Call_CheckResponseAndDecrypt]
                              in (case Client_CheckResponseAndDecrypt phe password
                                         (Enrollment rec) (Response resp)
                                  of (key, err) \<Rightarrow>
                                if err \<noteq> None
                                then (Returned (None,
                                        errors_Wrap err ''error after requesting service''),
                                      log4)
                                else if len key = 0
                                then (Returned (None, Some ErrInvalidPassword), log4)
                                else (Returned (key, None), log4)))))))))))"

subsection \<open>UpdateEnrollmentRecord\<close>

text \<open>
  The loop of \<^verbatim>\<open>UpdateEnrollmentRecord\<close>, with the variables it reads and writes as
  arguments. \<open>Inl\<close> is a \<^verbatim>\<open>return\<close> from inside the loop, \<open>Inr\<close> the value of \<^verbatim>\<open>newRec\<close>
  when the guard fails. Each round passes \<^verbatim>\<open>rec.Enrollment\<close> to \<^verbatim>\<open>phe.UpdateRecord\<close>, and
  \<^verbatim>\<open>rec\<close> is not assigned before the loop ends.
\<close>

function UpdateEnrollmentRecord_loop ::
  "('r, 't, 's, 'q, 'a) env \<Rightarrow> ('r, 't, 's, 'q, 'a) Protocol \<Rightarrow> 'r EnrollmentRecord \<Rightarrow>
     'r option \<Rightarrow> int \<Rightarrow> ('r, 't) event list \<Rightarrow>
     ((bytes option \<times> error option) + 'r option) \<times> ('r, 't) event list"
where
  "UpdateEnrollmentRecord_loop env p rec newRec recVersion log =
     (if recVersion < CurrentVersion p then
        (let log1 = log @ [Call_getToken (recVersion + 1)]
         in (case getToken p (recVersion + 1) of
           None \<Rightarrow>
             (Inl (None, Some (ErrorsNew
                ''protocol does not contain token to update record to the current version'')),
              log1)
         | Some token \<Rightarrow>
             (let log2 = log1 @ [Call_UpdateRecord (Enrollment rec) token]
              in (case phe_UpdateRecord env (Enrollment rec) token of
                (newRec', None) \<Rightarrow>
                  UpdateEnrollmentRecord_loop env p rec newRec' (recVersion + 1) log2
              | (newRec', Some err) \<Rightarrow> (Inl (None, Some err), log2)))))
      else (Inr newRec, log))"
  by pat_completeness auto
termination
  by (relation "measure (\<lambda>(env, p, rec, newRec, recVersion, log).
                           nat (CurrentVersion p - recVersion))") auto

definition UpdateEnrollmentRecord ::
  "('r, 't, 's, 'q, 'a) env \<Rightarrow> ('r, 't, 's, 'q, 'a) Protocol \<Rightarrow> bytes \<Rightarrow>
     (bytes option \<times> error option) outcome \<times> ('r, 't) event list"
where
  "UpdateEnrollmentRecord env p oldRecord =
     (case json_Unmarshal env oldRecord of
        Inl err \<Rightarrow> (Returned (None, Some err), [])
      | Inr None \<Rightarrow> (Panicked NilPointerDereference, [])
      | Inr (Some rec) \<Rightarrow>
          if Version rec = CurrentVersion p then (Returned (Some oldRecord, None), [])
          else if Version rec > CurrentVersion p
          then (Returned (None,
                  Some (ErrorsNew ''record's version is greater than protocol's version'')), [])
          else
            (case UpdateEnrollmentRecord_loop env p rec None (Version rec) [] of
               (Inl early, log) \<Rightarrow> (Returned early, log)
             | (Inr newRec, log) \<Rightarrow>
                 (case json_Marshal env
                         (rec\<lparr>Version := CurrentVersion p, Enrollment := newRec\<rparr>) of
                    Inl err \<Rightarrow> (Returned (None, Some err), log)
                  | Inr newRecord \<Rightarrow> (Returned (Some newRecord, None), log))))"

subsection \<open>An instance of the collaborators\<close>

text \<open>
  Concrete collaborators on which the operations can be run. A blob is the list of the
  tokens applied to it, and a token is a number, so that the history of a blob can be
  read off the result. The decoder knows the literal \<^verbatim>\<open>null\<close>, an envelope without
  payload and three envelopes with the empty payload \<^verbatim>\<open>{}\<close>, the blob no token has
  been applied to; anything else is a syntax
  error. The service knows one password, \<^verbatim>\<open>secret\<close>; a client turns its answer for any
  other password into an empty key.
\<close>

fun decimal :: "nat \<Rightarrow> string" where
  "decimal n =
     (if n < 10 then [''0123456789'' ! n]
      else decimal (n div 10) @ [''0123456789'' ! (n mod 10)])"

fun blob_text :: "nat list \<Rightarrow> string" where
  "blob_text [] = []"
| "blob_text [x] = decimal x"
| "blob_text (x # y # ys) = decimal x @ '','' @ blob_text (y # ys)"

definition example_Unmarshal :: "bytes \<Rightarrow> error + nat list EnrollmentRecord option" where
  \<open>example_Unmarshal data =
     (if data = ''null'' then Inr None
      else if data = ''{"version":1}'' then Inr (Some \<lparr>Version = 1, Enrollment = None\<rparr>)
      else if data = ''{"version":1,"enrollment":{}}''
        then Inr (Some \<lparr>Version = 1, Enrollment = Some []\<rparr>)
      else if data = ''{"version":3,"enrollment":{}}''
        then Inr (Some \<lparr>Version = 3, Enrollment = Some []\<rparr>)
      else if data = ''{"version":5,"enrollment":{}}''
        then Inr (Some \<lparr>Version = 5, Enrollment = Some []\<rparr>)
      else Inl (Foreign ''invalid character''))\<close>

definition example_Marshal :: "nat list EnrollmentRecord \<Rightarrow> error + bytes" where
  \<open>example_Marshal r =
     Inr (''{"version":'' @ decimal (nat (Version r)) @ '',"enrollment":'' @
          (case Enrollment r of None \<Rightarrow> ''null'' | Some b \<Rightarrow> ''{"applied":['' @ blob_text b @ '']}'') @
          ''}'')\<close>

definition example_UpdateRecord ::
  "nat list option \<Rightarrow> nat \<Rightarrow> nat list option \<times> error option"
where
  "example_UpdateRecord rec token =
     (case rec of
        None \<Rightarrow> (None, Some (Foreign ''invalid record''))
      | Some b \<Rightarrow> (Some (b @ [token]), None))"

definition example_client :: "(nat list, string, string, string) Client" where
  "example_client =
     \<lparr>Client_EnrollAccount = (\<lambda>password seed.
        case seed of
          None \<Rightarrow> (None, None, Some (Foreign ''invalid response''))
        | Some s \<Rightarrow> (Some [], Some (''key of '' @ password), None)),
      Client_CreateVerifyPasswordRequest = (\<lambda>password rec.
        case rec of
          None \<Rightarrow> (None, Some (Foreign ''invalid record''))
        | Some b \<Rightarrow> (Some password, None)),
      Client_CheckResponseAndDecrypt = (\<lambda>password rec resp.
        case resp of
          None \<Rightarrow> (None, Some (Foreign ''invalid response''))
        | Some a \<Rightarrow> (Some (if a = ''match'' then ''key of '' @ password else []), None))\<rparr>"

definition example_env :: "(nat list, nat, string, string, string) env" where
  "example_env =
     \<lparr>json_Unmarshal = example_Unmarshal,
      json_Marshal = example_Marshal,
      phe_UpdateRecord = example_UpdateRecord,
      APIClient_GetEnrollment = (\<lambda>req.
        (Some \<lparr>EnrollmentResponse.Version = EnrollmentRequest.Version req,
               Enrollment = Some ''seed''\<rparr>, None)),
      APIClient_VerifyPassword = (\<lambda>req.
        (Some \<lparr>Response =
           Some (if Request req = Some ''secret'' then ''match'' else ''differ'')\<rparr>, None))\<rparr>"

text \<open>Epochs 1 to 3 with their clients, the tokens into epochs 2 and 3, current epoch 3.\<close>

definition example_protocol :: "(nat list, nat, string, string, string) Protocol" where
  "example_protocol =
     \<lparr>AppID = ''app'',
      PHEClients = Some [1 \<mapsto> Some example_client, 2 \<mapsto> Some example_client,
                         3 \<mapsto> Some example_client],
      UpdateTokens = Some [2 \<mapsto> Some 2, 3 \<mapsto> Some 3],
      CurrentVersion = 3\<rparr>"

lemmas example_defs = example_env_def example_protocol_def example_client_def
  example_Unmarshal_def example_Marshal_def example_UpdateRecord_def

section \<open>Properties\<close>

subsection \<open>One round of the migration loop\<close>

declare UpdateEnrollmentRecord_loop.simps [simp del]

lemma loop_step_missing:
  "recVersion < CurrentVersion p \<Longrightarrow> getToken p (recVersion + 1) = None \<Longrightarrow>
   UpdateEnrollmentRecord_loop env p rec newRec recVersion log =
     (Inl (None, Some (ErrorsNew
        ''protocol does not contain token to update record to the current version'')),
      log @ [Call_getToken (recVersion + 1)])"
  by (subst UpdateEnrollmentRecord_loop.simps) (simp add: Let_def)

lemma loop_step_failed:
  "recVersion < CurrentVersion p \<Longrightarrow> getToken p (recVersion + 1) = Some token \<Longrightarrow>
   phe_UpdateRecord env (Enrollment rec) token = (newRec', Some err) \<Longrightarrow>
   UpdateEnrollmentRecord_loop env p rec newRec recVersion log =
     (Inl (None, Some err),
      log @ [Call_getToken (recVersion + 1), Call_UpdateRecord (Enrollment rec) token])"
  by (subst UpdateEnrollmentRecord_loop.simps) (simp add: Let_def)

lemma loop_step_next:
  "recVersion < CurrentVersion p \<Longrightarrow> getToken p (recVersion + 1) = Some token \<Longrightarrow>
   phe_UpdateRecord env (Enrollment rec) token = (newRec', None) \<Longrightarrow>
   UpdateEnrollmentRecord_loop env p rec newRec recVersion log =
   UpdateEnrollmentRecord_loop env p rec newRec' (recVersion + 1)
     (log @ [Call_getToken (recVersion + 1), Call_UpdateRecord (Enrollment rec) token])"
  by (subst UpdateEnrollmentRecord_loop.simps) (simp add: Let_def)

lemma loop_exit:
  "\<not> recVersion < CurrentVersion p \<Longrightarrow>
   UpdateEnrollmentRecord_loop env p rec newRec recVersion log = (Inr newRec, log)"
  by (subst UpdateEnrollmentRecord_loop.simps) simp

text \<open>
  A token missing at epoch \<open>m\<close> ahead of the loop counter ends the loop with an error:
  the missing-token error, unless \<^verbatim>\<open>phe.UpdateRecord\<close> has failed for an epoch below \<open>m\<close>.
\<close>

lemma loop_missing_token:
  assumes "v0 < m" and "m \<le> CurrentVersion p" and "getToken p m = None"
  shows "\<exists>e. fst (UpdateEnrollmentRecord_loop env p rec newRec v0 log) = Inl (None, Some e) \<and>
           (e = ErrorsNew
              ''protocol does not contain token to update record to the current version'' \<or>
            (\<exists>v token. v0 < v \<and> v < m \<and> getToken p v = Some token \<and>
               snd (phe_UpdateRecord env (Enrollment rec) token) = Some e))"
  using assms(1)
proof (induction "nat (m - v0)" arbitrary: v0 newRec log rule: less_induct)
  case less
  from less.prems assms(2) have guard: "v0 < CurrentVersion p" by simp
  show ?case
  proof (cases "getToken p (v0 + 1)")
    case None
    then show ?thesis by (simp add: loop_step_missing [OF guard])
  next
    case (Some token)
    with assms(3) have "v0 + 1 \<noteq> m" by auto
    with less.prems have below: "v0 + 1 < m" by simp
    obtain newRec' err where upd: "phe_UpdateRecord env (Enrollment rec) token = (newRec', err)"
      by (cases "phe_UpdateRecord env (Enrollment rec) token")
    show ?thesis
    proof (cases err)
      case None
      let ?log' = "log @ [Call_getToken (v0 + 1), Call_UpdateRecord (Enrollment rec) token]"
      have smaller: "nat (m - (v0 + 1)) < nat (m - v0)" using less.prems by simp
      from less.hyps [OF smaller below, of newRec' ?log'] obtain e where
        e: "fst (UpdateEnrollmentRecord_loop env p rec newRec' (v0 + 1) ?log') =
              Inl (None, Some e)"
        and d: "e = ErrorsNew
              ''protocol does not contain token to update record to the current version'' \<or>
            (\<exists>v token. v0 + 1 < v \<and> v < m \<and> getToken p v = Some token \<and>
               snd (phe_UpdateRecord env (Enrollment rec) token) = Some e)"
        by blast
      from d have d': "e = ErrorsNew
              ''protocol does not contain token to update record to the current version'' \<or>
            (\<exists>v token. v0 < v \<and> v < m \<and> getToken p v = Some token \<and>
               snd (phe_UpdateRecord env (Enrollment rec) token) = Some e)"
      proof
        assume "e = ErrorsNew
              ''protocol does not contain token to update record to the current version''"
        then show ?thesis by (rule disjI1)
      next
        assume "\<exists>v token. v0 + 1 < v \<and> v < m \<and> getToken p v = Some token \<and>
               snd (phe_UpdateRecord env (Enrollment rec) token) = Some e"
        then obtain v t where "v0 + 1 < v" and r: "v < m" "getToken p v = Some t"
            "snd (phe_UpdateRecord env (Enrollment rec) t) = Some e"
          by blast
        then have "v0 < v" by simp
        with r show ?thesis by blast
      qed
      from upd None have "phe_UpdateRecord env (Enrollment rec) token = (newRec', None)"
        by simp
      from loop_step_next [OF guard Some this, of newRec log] e d' show ?thesis
        by simp
    next
      case (Some e)
      with upd have f: "phe_UpdateRecord env (Enrollment rec) token = (newRec', Some e)"
        by simp
      have "snd (phe_UpdateRecord env (Enrollment rec) token) = Some e"
        by (simp add: f)
      with below \<open>getToken p (v0 + 1) = Some token\<close>
      have "\<exists>v token. v0 < v \<and> v < m \<and> getToken p v = Some token \<and>
               snd (phe_UpdateRecord env (Enrollment rec) token) = Some e"
        by (intro exI [of _ "v0 + 1"] exI [of _ token]) simp
      with loop_step_failed [OF guard \<open>getToken p (v0 + 1) = Some token\<close> f, of newRec log]
      show ?thesis by simp
    qed
  qed
qed

text \<open>
  Which of the two it is: the missing-token error when every transformation below the
  epoch without token succeeds, and the error of the first transformation that fails
  when the loop reaches it through epochs that all have tokens.
\<close>

lemma loop_missing_after_successes:
  assumes "v0 < m" and "m \<le> CurrentVersion p" and "getToken p m = None"
    and "\<forall>v token. v0 < v \<and> v < m \<and> getToken p v = Some token \<longrightarrow>
           snd (phe_UpdateRecord env (Enrollment rec) token) = None"
  shows "fst (UpdateEnrollmentRecord_loop env p rec newRec v0 log) =
           Inl (None, Some (ErrorsNew
             ''protocol does not contain token to update record to the current version''))"
proof -
  from loop_missing_token [OF assms(1,2,3), of env rec newRec log] obtain e where
    e: "fst (UpdateEnrollmentRecord_loop env p rec newRec v0 log) = Inl (None, Some e)"
    and d: "e = ErrorsNew
              ''protocol does not contain token to update record to the current version'' \<or>
            (\<exists>v token. v0 < v \<and> v < m \<and> getToken p v = Some token \<and>
               snd (phe_UpdateRecord env (Enrollment rec) token) = Some e)"
    by blast
  from d assms(4) have "e = ErrorsNew
      ''protocol does not contain token to update record to the current version''"
    by auto
  with e show ?thesis by simp
qed

lemma loop_first_failure:
  assumes "v0 < k" and "k \<le> CurrentVersion p"
    and "\<forall>v. v0 < v \<and> v \<le> k \<longrightarrow> getToken p v \<noteq> None"
    and "\<forall>v token. v0 < v \<and> v < k \<and> getToken p v = Some token \<longrightarrow>
           snd (phe_UpdateRecord env (Enrollment rec) token) = None"
    and "getToken p k = Some failing"
    and "snd (phe_UpdateRecord env (Enrollment rec) failing) = Some e"
  shows "fst (UpdateEnrollmentRecord_loop env p rec newRec v0 log) = Inl (None, Some e)"
  using assms(1,3,4)
proof (induction "nat (k - v0)" arbitrary: v0 newRec log rule: less_induct)
  case less
  from less.prems(1) assms(2) have guard: "v0 < CurrentVersion p" by simp
  show ?case
  proof (cases "v0 + 1 = k")
    case True
    with assms(5) have tok: "getToken p (v0 + 1) = Some failing" by simp
    from assms(6) have
      "phe_UpdateRecord env (Enrollment rec) failing =
         (fst (phe_UpdateRecord env (Enrollment rec) failing), Some e)"
      by (metis prod.collapse)
    from loop_step_failed [OF guard tok this, of newRec log] show ?thesis by simp
  next
    case False
    with less.prems(1) have below: "v0 + 1 < k" by simp
    from below have "v0 < v0 + 1 \<and> v0 + 1 \<le> k" by simp
    with less.prems(2) have "getToken p (v0 + 1) \<noteq> None" by blast
    then obtain token where tok: "getToken p (v0 + 1) = Some token" by blast
    have "snd (phe_UpdateRecord env (Enrollment rec) token) = None"
      using less.prems(3) [rule_format, of "v0 + 1" token] below tok by simp
    then have upd: "phe_UpdateRecord env (Enrollment rec) token =
        (fst (phe_UpdateRecord env (Enrollment rec) token), None)"
      by (metis prod.collapse)
    have smaller: "nat (k - (v0 + 1)) < nat (k - v0)" using less.prems(1) by simp
    have p2: "\<forall>v. v0 + 1 < v \<and> v \<le> k \<longrightarrow> getToken p v \<noteq> None"
    proof (intro allI impI)
      fix v
      assume "v0 + 1 < v \<and> v \<le> k"
      then have "v0 < v \<and> v \<le> k" by simp
      with less.prems(2) show "getToken p v \<noteq> None" by blast
    qed
    have p3: "\<forall>v token. v0 + 1 < v \<and> v < k \<and> getToken p v = Some token \<longrightarrow>
           snd (phe_UpdateRecord env (Enrollment rec) token) = None"
    proof (intro allI impI)
      fix v token
      assume "v0 + 1 < v \<and> v < k \<and> getToken p v = Some token"
      then have "v0 < v \<and> v < k \<and> getToken p v = Some token" by simp
      with less.prems(3) show "snd (phe_UpdateRecord env (Enrollment rec) token) = None"
        by blast
    qed
    from less.hyps [OF smaller below p2 p3] loop_step_next [OF guard tok upd, of newRec log]
    show ?thesis by simp
  qed
qed

text \<open>
  With every token present and every transformation successful, the loop leaves in
  \<^verbatim>\<open>newRec\<close> the original blob transformed by the last token alone.
\<close>

lemma loop_last_token:
  assumes "v0 < CurrentVersion p"
    and "getToken p (CurrentVersion p) = Some last"
    and "\<forall>v. v0 < v \<and> v \<le> CurrentVersion p \<longrightarrow>
           (\<exists>token. getToken p v = Some token \<and>
              snd (phe_UpdateRecord env (Enrollment rec) token) = None)"
  shows "fst (UpdateEnrollmentRecord_loop env p rec newRec v0 log) =
           Inr (fst (phe_UpdateRecord env (Enrollment rec) last))"
  using assms(1,3)
proof (induction "nat (CurrentVersion p - v0)" arbitrary: v0 newRec log rule: less_induct)
  case less
  from less.prems(2) less.prems(1) obtain token where
    tok: "getToken p (v0 + 1) = Some token"
    and ok: "snd (phe_UpdateRecord env (Enrollment rec) token) = None"
    by (metis less_add_one zless_imp_add1_zle)
  then have upd: "phe_UpdateRecord env (Enrollment rec) token =
      (fst (phe_UpdateRecord env (Enrollment rec) token), None)"
    by (metis prod.collapse)
  let ?log' = "log @ [Call_getToken (v0 + 1), Call_UpdateRecord (Enrollment rec) token]"
  let ?newRec' = "fst (phe_UpdateRecord env (Enrollment rec) token)"
  note step = loop_step_next [OF less.prems(1) tok upd, of newRec log]
  show ?case
  proof (cases "v0 + 1 < CurrentVersion p")
    case True
    have smaller: "nat (CurrentVersion p - (v0 + 1)) < nat (CurrentVersion p - v0)"
      using less.prems(1) by simp
    have rest: "\<forall>v. v0 + 1 < v \<and> v \<le> CurrentVersion p \<longrightarrow>
           (\<exists>token. getToken p v = Some token \<and>
              snd (phe_UpdateRecord env (Enrollment rec) token) = None)"
      using less.prems(2) by auto
    from less.hyps [OF smaller True rest, of ?newRec' ?log'] step show ?thesis
      by simp
  next
    case False
    with less.prems(1) have "v0 + 1 = CurrentVersion p" by simp
    with tok assms(2) have "token = last" by simp
    with step loop_exit [OF False, of env rec ?newRec' ?log'] show ?thesis
      by simp
  qed
qed

subsection \<open>Outcomes of VerifyPassword\<close>

text \<open>
  What a call of \<^verbatim>\<open>VerifyPassword\<close> can end in: a panic on an absent envelope, a key that
  is not empty, an error, or neither key nor error when the service has answered with
  neither response nor error.
\<close>

lemma VerifyPassword_outcomes:
  "fst (VerifyPassword env p password enrollmentRecord) = Panicked NilPointerDereference \<and>
     json_Unmarshal env enrollmentRecord = Inr None \<or>
   (\<exists>k. fst (VerifyPassword env p password enrollmentRecord) = Returned (Some k, None) \<and>
      k \<noteq> []) \<or>
   (\<exists>e. fst (VerifyPassword env p password enrollmentRecord) = Returned (None, Some e)) \<or>
   fst (VerifyPassword env p password enrollmentRecord) = Returned (None, None) \<and>
     (\<exists>req. APIClient_VerifyPassword env req = (None, None))"
  by (auto simp: VerifyPassword_def Let_def len_def errors_Wrap_def
           split: sum.splits option.splits prod.splits if_splits)

lemma UpdateEnrollmentRecord_returns:
  assumes "json_Unmarshal env oldRecord \<noteq> Inr None"
  shows "\<exists>r. fst (UpdateEnrollmentRecord env p oldRecord) = Returned r"
  using assms
  by (auto simp: UpdateEnrollmentRecord_def split: sum.splits option.splits prod.splits)

lemma absent_envelope_panics:
  assumes "json_Unmarshal env data = Inr None"
  shows "VerifyPassword env p password data = (Panicked NilPointerDereference, [])"
    and "UpdateEnrollmentRecord env p data = (Panicked NilPointerDereference, [])"
  using assms by (simp_all add: VerifyPassword_def UpdateEnrollmentRecord_def)

subsection \<open>Migration keeps the last token only\<close>

lemma UpdateEnrollmentRecord_last_token_only:
  assumes "json_Unmarshal env oldRecord = Inr (Some rec)"
    and "Version rec < CurrentVersion p"
    and "getToken p (CurrentVersion p) = Some last"
    and "\<forall>v. Version rec < v \<and> v \<le> CurrentVersion p \<longrightarrow>
           (\<exists>token. getToken p v = Some token \<and>
              snd (phe_UpdateRecord env (Enrollment rec) token) = None)"
  shows "fst (UpdateEnrollmentRecord env p oldRecord) =
           (case json_Marshal env
                   (rec\<lparr>Version := CurrentVersion p,
                        Enrollment := fst (phe_UpdateRecord env (Enrollment rec) last)\<rparr>) of
              Inl err \<Rightarrow> Returned (None, Some err)
            | Inr newRecord \<Rightarrow> Returned (Some newRecord, None))"
proof -
  from loop_last_token [OF assms(2,3,4), of None "[]"] obtain log where
    "UpdateEnrollmentRecord_loop env p rec None (Version rec) [] =
       (Inr (fst (phe_UpdateRecord env (Enrollment rec) last)), log)"
    by (cases "UpdateEnrollmentRecord_loop env p rec None (Version rec) []") simp
  with assms(1,2) show ?thesis
    by (simp add: UpdateEnrollmentRecord_def split: sum.splits)
qed

section \<open>The claims\<close>

text \<open>
  C1. The claim: for a record at epoch \<open>a\<close> below \<^verbatim>\<open>CurrentVersion\<close> with all tokens
  present, \<^verbatim>\<open>UpdateEnrollmentRecord\<close> applies the tokens in increasing order, each to the
  blob the previous one has produced; for a record at version 1 and \<^verbatim>\<open>CurrentVersion\<close> 3 it
  applies token(2) to the original blob and token(3) to token(2)'s output.

  The code does not: every round calls \<^verbatim>\<open>phe.UpdateRecord(rec.Enrollment, token)\<close> with the
  blob of the input record. On the record at version 1, with the tokens 2 and 3 and
  \<^verbatim>\<open>CurrentVersion\<close> 3, both calls receive the original blob \<open>[]\<close>, and the record
  returned at version 3 carries \<open>[3]\<close>, token 3 applied to the original, where the chain
  of the two transformations gives \<open>[2, 3]\<close>.
\<close>

theorem UpdateEnrollmentRecord_applies_tokens_to_original:
  \<open>UpdateEnrollmentRecord example_env example_protocol ''{"version":1,"enrollment":{}}'' =
     (Returned (Some ''{"version":3,"enrollment":{"applied":[3]}}'', None),
      [Call_getToken 2, Call_UpdateRecord (Some []) 2,
       Call_getToken 3, Call_UpdateRecord (Some []) 3]) \<and>
   phe_UpdateRecord example_env (fst (phe_UpdateRecord example_env (Some []) 2)) 3 =
     (Some [2, 3], None)\<close>
  by (simp add: UpdateEnrollmentRecord_def getToken_def example_defs
        UpdateEnrollmentRecord_loop.simps)

text \<open>
  C2. The claim: \<^verbatim>\<open>VerifyPassword\<close> returns either a non-empty key and no error, or no key
  and exactly one error, also when the service delivers an absent response without a
  transport error.

  The code returns neither in that case: the branch \<^verbatim>\<open>err != nil || resp == nil\<close> returns
  \<^verbatim>\<open>errors.Wrap(err, ...)\<close>, which is nil for a nil \<^verbatim>\<open>err\<close>. Here the service answers
  \<^verbatim>\<open>(nil, nil)\<close> to the request for a record of the current epoch.
\<close>

theorem VerifyPassword_nil_response_returns_nothing:
  \<open>VerifyPassword (example_env\<lparr>APIClient_VerifyPassword := (\<lambda>req. (None, None))\<rparr>)
      example_protocol ''secret'' ''{"version":3,"enrollment":{}}'' =
     (Returned (None, None),
      [Call_getPHE 3, Call_CreateVerifyPasswordRequest, Call_VerifyPassword 3])\<close>
  by (simp add: VerifyPassword_def getPHE_def errors_Wrap_def example_defs)

theorem VerifyPassword_nil_response_returns_nothing_witness:
  \<open>errors_Wrap None ''error while requesting service'' = None \<and>
   fst (VerifyPassword (example_env\<lparr>APIClient_VerifyPassword := (\<lambda>req. (None, None))\<rparr>)
          example_protocol ''secret'' ''{"version":3,"enrollment":{}}'') =
     Returned (None, None)\<close>
  using VerifyPassword_nil_response_returns_nothing by (simp add: errors_Wrap_def)

text \<open>
  C3. The claim: \<^verbatim>\<open>VerifyPassword\<close> and \<^verbatim>\<open>UpdateEnrollmentRecord\<close> answer every byte string
  with a result or an error, and no input, the JSON literal \<^verbatim>\<open>null\<close> included, makes
  them read the version field of an absent envelope.

  The code does: \<^verbatim>\<open>null\<close> decodes without an error to a nil \<^verbatim>\<open>rec\<close>, and both functions
  read \<^verbatim>\<open>rec.Version\<close> next.
\<close>

theorem null_record_panics:
  \<open>json_Unmarshal example_env ''null'' = Inr None \<and>
   VerifyPassword example_env example_protocol ''secret'' ''null'' =
     (Panicked NilPointerDereference, []) \<and>
   UpdateEnrollmentRecord example_env example_protocol ''null'' =
     (Panicked NilPointerDereference, [])\<close>
  by (simp add: VerifyPassword_def UpdateEnrollmentRecord_def example_defs)

theorem null_record_panics_witness:
  \<open>fst (VerifyPassword example_env example_protocol ''secret'' ''null'') =
     Panicked NilPointerDereference \<and>
   fst (UpdateEnrollmentRecord example_env example_protocol ''null'') =
     Panicked NilPointerDereference\<close>
  using null_record_panics by simp

text \<open>
  C4, as amended. \<^verbatim>\<open>NewProtocol\<close> fails with the error \<^verbatim>\<open>invalid context\<close> (the spec's
  \<open>InvalidConfiguration\<close>) whenever the context is absent, its app identity is the empty
  string or its client registry is the nil map; for every context with a non-empty
  app identity and a registry that is not nil, construction succeeds and copies the four
  fields, whether or not the registry holds an entry.
\<close>

theorem NewProtocol_invalid_context:
  "(context = None \<or>
    (\<exists>c. context = Some c \<and> (Context.AppId c = [] \<or> Context.PHEClients c = None))
      \<longrightarrow> NewProtocol context = (None, Some (ErrorsNew ''invalid context''))) \<and>
   (\<forall>c m. context = Some c \<and> Context.AppId c \<noteq> [] \<and> Context.PHEClients c = Some m
      \<longrightarrow> NewProtocol context =
            (Some \<lparr>AppID = Context.AppId c, PHEClients = Some m,
                   UpdateTokens = Context.UpdateTokens c,
                   CurrentVersion = Context.Version c\<rparr>, None))"
  by (auto simp: NewProtocol_def)

theorem NewProtocol_invalid_context_witness:
  "NewProtocol (None :: (nat list, nat, string, string, string) Context option) =
     (None, Some (ErrorsNew ''invalid context'')) \<and>
   NewProtocol (Some \<lparr>AppId = [], PHEClients = Some [3 \<mapsto> Some example_client],
                       UpdateTokens = Some [3 \<mapsto> Some (3::nat)], Version = 3\<rparr>) =
     (None, Some (ErrorsNew ''invalid context'')) \<and>
   NewProtocol (Some \<lparr>AppId = ''app'', PHEClients = None,
                       UpdateTokens = Some [3 \<mapsto> Some (3::nat)], Version = 3\<rparr> ::
                  (nat list, nat, string, string, string) Context option) =
     (None, Some (ErrorsNew ''invalid context'')) \<and>
   NewProtocol (Some \<lparr>AppId = ''app'', PHEClients = Some [3 \<mapsto> Some example_client],
                       UpdateTokens = Some [3 \<mapsto> Some (3::nat)], Version = 3\<rparr>) =
     (Some \<lparr>AppID = ''app'', PHEClients = Some [3 \<mapsto> Some example_client],
            UpdateTokens = Some [3 \<mapsto> Some 3], CurrentVersion = 3\<rparr>, None)"
  using NewProtocol_invalid_context
          [of "None :: (nat list, nat, string, string, string) Context option"]
        NewProtocol_invalid_context
          [of "Some \<lparr>AppId = [], PHEClients = Some [3 \<mapsto> Some example_client],
                       UpdateTokens = Some [3 \<mapsto> Some (3::nat)], Version = 3\<rparr>"]
        NewProtocol_invalid_context
          [of "Some \<lparr>AppId = ''app'', PHEClients = None,
                       UpdateTokens = Some [3 \<mapsto> Some (3::nat)], Version = 3\<rparr> ::
                  (nat list, nat, string, string, string) Context option"]
        NewProtocol_invalid_context
          [of "Some \<lparr>AppId = ''app'', PHEClients = Some [3 \<mapsto> Some example_client],
                       UpdateTokens = Some [3 \<mapsto> Some (3::nat)], Version = 3\<rparr>"]
  by simp

text \<open>
  C4 as stated fails for a registry that is empty but not nil: the guard compares the
  map with nil and does not count its entries, so construction succeeds.
\<close>

theorem NewProtocol_empty_registry_counterexample:
  "dom (Map.empty :: int \<rightharpoonup> (nat list, string, string, string) Client option) = {} \<and>
   NewProtocol (Some \<lparr>AppId = ''app'', PHEClients = Some Map.empty,
                       UpdateTokens = (None :: (int \<rightharpoonup> nat option) option), Version = 1\<rparr>) =
     (Some \<lparr>AppID = ''app'', PHEClients = Some Map.empty, UpdateTokens = None,
            CurrentVersion = 1\<rparr>, None)"
  by (simp add: NewProtocol_def)




text \<open>
  C6. For every password and every record that decodes to an envelope whose version
  differs from \<^verbatim>\<open>CurrentVersion\<close>, lower or higher, \<^verbatim>\<open>VerifyPassword\<close> fails with the
  error \<^verbatim>\<open>version mismatch\<close> (the spec's \<open>VersionMismatch\<close>), and its log of calls is
  empty: no registry lookup, no cryptographic computation, no migration, no remote call.
\<close>

theorem VerifyPassword_version_mismatch:
  assumes "json_Unmarshal env enrollmentRecord = Inr (Some rec)"
    and "Version rec \<noteq> CurrentVersion p"
  shows "VerifyPassword env p password enrollmentRecord =
           (Returned (None, Some (ErrorsNew ''version mismatch'')), [])"
  using assms by (simp add: VerifyPassword_def)

theorem VerifyPassword_version_mismatch_witness:
  \<open>json_Unmarshal example_env ''{"version":1,"enrollment":{}}'' =
      Inr (Some \<lparr>Version = 1, Enrollment = Some []\<rparr>) \<and>
   Version \<lparr>Version = 1, Enrollment = Some ([] :: nat list)\<rparr> \<noteq> CurrentVersion example_protocol \<and>
   VerifyPassword example_env example_protocol ''secret'' ''{"version":1,"enrollment":{}}'' =
     (Returned (None, Some (ErrorsNew ''version mismatch'')), []) \<and>
   VerifyPassword example_env example_protocol ''secret'' ''{"version":5,"enrollment":{}}'' =
     (Returned (None, Some (ErrorsNew ''version mismatch'')), [])\<close>
proof -
  have d1: \<open>json_Unmarshal example_env ''{"version":1,"enrollment":{}}'' =
      Inr (Some \<lparr>Version = 1, Enrollment = Some []\<rparr>)\<close>
    by (simp add: example_env_def example_Unmarshal_def)
  have d5: \<open>json_Unmarshal example_env ''{"version":5,"enrollment":{}}'' =
      Inr (Some \<lparr>Version = 5, Enrollment = Some []\<rparr>)\<close>
    by (simp add: example_env_def example_Unmarshal_def)
  have v1: "Version \<lparr>Version = 1, Enrollment = Some ([] :: nat list)\<rparr> \<noteq>
      CurrentVersion example_protocol"
    by (simp add: example_protocol_def)
  have v5: "Version \<lparr>Version = 5, Enrollment = Some ([] :: nat list)\<rparr> \<noteq>
      CurrentVersion example_protocol"
    by (simp add: example_protocol_def)
  from VerifyPassword_version_mismatch [OF d1 v1, of "''secret''"]
       VerifyPassword_version_mismatch [OF d5 v5, of "''secret''"] d1 v1
  show ?thesis by simp
qed

text \<open>
  C7. In \<^verbatim>\<open>VerifyPassword\<close>, once the service has answered with a response: if
  \<^verbatim>\<open>CheckResponseAndDecrypt\<close> returns no error and a key of length 0, the call fails with
  \<open>ErrInvalidPassword\<close> and returns no key; if it returns an error \<open>e\<close>, the call fails with
  \<open>e\<close> wrapped as \<^verbatim>\<open>error after requesting service\<close>, which is not \<open>ErrInvalidPassword\<close>;
  if it returns no error and a key of positive length, that key is returned. Whatever
  the input, a key that is returned is not empty and comes without an error.
\<close>

theorem VerifyPassword_empty_key:
  "(json_Unmarshal env enrollmentRecord = Inr (Some rec) \<and>
    Version rec = CurrentVersion p \<and>
    getPHE p (Version rec) = Some phe \<and>
    Client_CreateVerifyPasswordRequest phe password (Enrollment rec) = (req, None) \<and>
    APIClient_VerifyPassword env
      \<lparr>VerifyPasswordRequest.Version = Version rec, Request = req\<rparr> = (Some resp, None) \<and>
    Client_CheckResponseAndDecrypt phe password (Enrollment rec) (Response resp) = (key, err)
    \<longrightarrow>
      (err = None \<and> len key = 0 \<longrightarrow>
         fst (VerifyPassword env p password enrollmentRecord) =
           Returned (None, Some ErrInvalidPassword)) \<and>
      (\<forall>e. err = Some e \<longrightarrow>
         fst (VerifyPassword env p password enrollmentRecord) =
           Returned (None, Some (Wrap e ''error after requesting service'')) \<and>
         Wrap e ''error after requesting service'' \<noteq> ErrInvalidPassword) \<and>
      (err = None \<and> len key \<noteq> 0 \<longrightarrow>
         fst (VerifyPassword env p password enrollmentRecord) = Returned (key, None))) \<and>
   (\<forall>k e. fst (VerifyPassword env p password enrollmentRecord) = Returned (Some k, e) \<longrightarrow>
      k \<noteq> [] \<and> e = None)"
proof (intro conjI impI allI)
  fix k e
  assume "fst (VerifyPassword env p password enrollmentRecord) = Returned (Some k, e)"
  then show "k \<noteq> []" and "e = None"
    by (auto simp: VerifyPassword_def Let_def len_def
             split: sum.splits option.splits prod.splits if_splits)
qed (auto simp: VerifyPassword_def Let_def errors_Wrap_def)

theorem VerifyPassword_empty_key_witness:
  \<open>fst (VerifyPassword example_env example_protocol ''wrong'' ''{"version":3,"enrollment":{}}'') =
     Returned (None, Some ErrInvalidPassword) \<and>
   fst (VerifyPassword example_env example_protocol ''secret'' ''{"version":3,"enrollment":{}}'') =
     Returned (Some ''key of secret'', None) \<and>
   fst (VerifyPassword (example_env\<lparr>APIClient_VerifyPassword := (\<lambda>req. (Some \<lparr>Response = None\<rparr>, None))\<rparr>)
          example_protocol ''secret'' ''{"version":3,"enrollment":{}}'') =
     Returned (None, Some (Wrap (Foreign ''invalid response'') ''error after requesting service''))\<close>
proof -
  let ?rec = "\<lparr>Version = 3, Enrollment = Some ([] :: nat list)\<rparr>"
  let ?env' = "example_env\<lparr>APIClient_VerifyPassword :=
                 (\<lambda>req. (Some \<lparr>Response = (None :: string option)\<rparr>, None))\<rparr>"
  have d: \<open>json_Unmarshal example_env ''{"version":3,"enrollment":{}}'' = Inr (Some ?rec)\<close>
    by (simp add: example_env_def example_Unmarshal_def)
  have d': \<open>json_Unmarshal ?env' ''{"version":3,"enrollment":{}}'' = Inr (Some ?rec)\<close>
    by (simp add: example_env_def example_Unmarshal_def)
  have v: "Version ?rec = CurrentVersion example_protocol"
    by (simp add: example_protocol_def)
  have c: "getPHE example_protocol (Version ?rec) = Some example_client"
    by (simp add: getPHE_def example_protocol_def)
  have q1: "Client_CreateVerifyPasswordRequest example_client ''wrong'' (Enrollment ?rec) =
      (Some ''wrong'', None)"
    by (simp add: example_client_def)
  have q2: "Client_CreateVerifyPasswordRequest example_client ''secret'' (Enrollment ?rec) =
      (Some ''secret'', None)"
    by (simp add: example_client_def)
  have r1: "APIClient_VerifyPassword example_env
      \<lparr>VerifyPasswordRequest.Version = Version ?rec, Request = Some ''wrong''\<rparr> =
      (Some \<lparr>Response = Some ''differ''\<rparr>, None)"
    by (simp add: example_env_def)
  have r2: "APIClient_VerifyPassword example_env
      \<lparr>VerifyPasswordRequest.Version = Version ?rec, Request = Some ''secret''\<rparr> =
      (Some \<lparr>Response = Some ''match''\<rparr>, None)"
    by (simp add: example_env_def)
  have r3: "APIClient_VerifyPassword ?env'
      \<lparr>VerifyPasswordRequest.Version = Version ?rec, Request = Some ''secret''\<rparr> =
      (Some \<lparr>Response = None\<rparr>, None)"
    by simp
  have k1: "Client_CheckResponseAndDecrypt example_client ''wrong'' (Enrollment ?rec)
      (Response \<lparr>Response = Some ''differ''\<rparr>) = (Some [], None)"
    by (simp add: example_client_def)
  have k2: "Client_CheckResponseAndDecrypt example_client ''secret'' (Enrollment ?rec)
      (Response \<lparr>Response = Some ''match''\<rparr>) = (Some ''key of secret'', None)"
    by (simp add: example_client_def)
  have k3: "Client_CheckResponseAndDecrypt example_client ''secret'' (Enrollment ?rec)
      (Response \<lparr>Response = (None :: string option)\<rparr>) = (None, Some (Foreign ''invalid response''))"
    by (simp add: example_client_def)
  have l1: "len (Some []) = 0" and l2: "len (Some ''key of secret'') \<noteq> 0"
    by (simp_all add: len_def)
  from VerifyPassword_empty_key [THEN conjunct1, rule_format, OF conjI [OF d conjI [OF v conjI [OF c conjI [OF q1 conjI [OF r1 k1]]]]]]
  have a: \<open>fst (VerifyPassword example_env example_protocol ''wrong'' ''{"version":3,"enrollment":{}}'') =
     Returned (None, Some ErrInvalidPassword)\<close>
    using l1 by simp
  from VerifyPassword_empty_key [THEN conjunct1, rule_format, OF conjI [OF d conjI [OF v conjI [OF c conjI [OF q2 conjI [OF r2 k2]]]]]]
  have b: \<open>fst (VerifyPassword example_env example_protocol ''secret'' ''{"version":3,"enrollment":{}}'') =
     Returned (Some ''key of secret'', None)\<close>
    using l2 by simp
  from VerifyPassword_empty_key [THEN conjunct1, rule_format, OF conjI [OF d' conjI [OF v conjI [OF c conjI [OF q2 conjI [OF r3 k3]]]]]]
  have c: \<open>fst (VerifyPassword ?env' example_protocol ''secret'' ''{"version":3,"enrollment":{}}'') =
     Returned (None, Some (Wrap (Foreign ''invalid response'') ''error after requesting service''))\<close>
    by simp
  from a b c show ?thesis by simp
qed

text \<open>
  C8. For every record that decodes to an envelope whose version equals
  \<^verbatim>\<open>CurrentVersion\<close>, \<^verbatim>\<open>UpdateEnrollmentRecord\<close> succeeds and returns the input bytes as they
  are, and its log of calls is empty: no token is resolved and nothing is transformed.
\<close>

theorem UpdateEnrollmentRecord_current_unchanged:
  assumes "json_Unmarshal env oldRecord = Inr (Some rec)"
    and "Version rec = CurrentVersion p"
  shows "UpdateEnrollmentRecord env p oldRecord = (Returned (Some oldRecord, None), [])"
  using assms by (simp add: UpdateEnrollmentRecord_def)

theorem UpdateEnrollmentRecord_current_unchanged_witness:
  \<open>json_Unmarshal example_env ''{"version":3,"enrollment":{}}'' =
      Inr (Some \<lparr>Version = 3, Enrollment = Some []\<rparr>) \<and>
   Version \<lparr>Version = 3, Enrollment = Some ([] :: nat list)\<rparr> = CurrentVersion example_protocol \<and>
   UpdateEnrollmentRecord example_env example_protocol ''{"version":3,"enrollment":{}}'' =
     (Returned (Some ''{"version":3,"enrollment":{}}'', None), [])\<close>
proof -
  have d: \<open>json_Unmarshal example_env ''{"version":3,"enrollment":{}}'' =
      Inr (Some \<lparr>Version = 3, Enrollment = Some []\<rparr>)\<close>
    by (simp add: example_env_def example_Unmarshal_def)
  have v: "Version \<lparr>Version = 3, Enrollment = Some ([] :: nat list)\<rparr> =
      CurrentVersion example_protocol"
    by (simp add: example_protocol_def)
  from UpdateEnrollmentRecord_current_unchanged [OF d v] d v show ?thesis by simp
qed

text \<open>
  C9, as amended. For every record that decodes to an envelope at an epoch below
  \<^verbatim>\<open>CurrentVersion\<close>: if some epoch \<open>m\<close> above the record's and up to \<^verbatim>\<open>CurrentVersion\<close>
  has no update token (\<^verbatim>\<open>getToken\<close> returns nil, as it does for every epoch when the token
  registry is nil), \<^verbatim>\<open>UpdateEnrollmentRecord\<close> fails and returns no record. Which error it
  returns is decided by the first round that fails. If the transformations for the
  tokens of all epochs below an epoch without token succeed, the error is
  \<^verbatim>\<open>protocol does not contain token to update record to the current version\<close> (the spec's
  \<open>MissingUpdateToken\<close>). If instead \<^verbatim>\<open>phe.UpdateRecord\<close> fails at an epoch \<open>k\<close> below \<open>m\<close>,
  with a token for every epoch up to \<open>k\<close> and all transformations below \<open>k\<close> successful,
  the error is the one of that transformation.
\<close>

theorem UpdateEnrollmentRecord_missing_token:
  assumes "json_Unmarshal env oldRecord = Inr (Some rec)"
    and "Version rec < m" and "m \<le> CurrentVersion p"
    and "getToken p m = None"
  shows "(\<exists>e. fst (UpdateEnrollmentRecord env p oldRecord) = Returned (None, Some e)) \<and>
         (\<forall>m'. Version rec < m' \<and> m' \<le> m \<and> getToken p m' = None \<and>
            (\<forall>v token. Version rec < v \<and> v < m' \<and> getToken p v = Some token \<longrightarrow>
               snd (phe_UpdateRecord env (Enrollment rec) token) = None) \<longrightarrow>
            fst (UpdateEnrollmentRecord env p oldRecord) =
              Returned (None, Some (ErrorsNew
                ''protocol does not contain token to update record to the current version''))) \<and>
         (\<forall>k failing e. Version rec < k \<and> k < m \<and>
            (\<forall>v. Version rec < v \<and> v \<le> k \<longrightarrow> getToken p v \<noteq> None) \<and>
            (\<forall>v token. Version rec < v \<and> v < k \<and> getToken p v = Some token \<longrightarrow>
               snd (phe_UpdateRecord env (Enrollment rec) token) = None) \<and>
            getToken p k = Some failing \<and>
            snd (phe_UpdateRecord env (Enrollment rec) failing) = Some e \<longrightarrow>
            fst (UpdateEnrollmentRecord env p oldRecord) = Returned (None, Some e))"
proof -
  from assms(2,3) have lt: "Version rec < CurrentVersion p" by simp
  have early: "fst (UpdateEnrollmentRecord env p oldRecord) = Returned r"
    if "fst (UpdateEnrollmentRecord_loop env p rec None (Version rec) []) = Inl r" for r
  proof -
    from that obtain log where
      "UpdateEnrollmentRecord_loop env p rec None (Version rec) [] = (Inl r, log)"
      by (cases "UpdateEnrollmentRecord_loop env p rec None (Version rec) []") simp
    with assms(1) lt show ?thesis by (simp add: UpdateEnrollmentRecord_def)
  qed
  have a: "\<exists>e. fst (UpdateEnrollmentRecord env p oldRecord) = Returned (None, Some e)"
    using loop_missing_token [OF assms(2,3,4), of env rec None "[]"] early by blast
  have b: "fst (UpdateEnrollmentRecord env p oldRecord) =
              Returned (None, Some (ErrorsNew
                ''protocol does not contain token to update record to the current version''))"
    if "Version rec < m'" and "m' \<le> m" and "getToken p m' = None"
      and "\<forall>v token. Version rec < v \<and> v < m' \<and> getToken p v = Some token \<longrightarrow>
               snd (phe_UpdateRecord env (Enrollment rec) token) = None" for m'
  proof -
    from that(2) assms(3) have "m' \<le> CurrentVersion p" by simp
    from loop_missing_after_successes [OF that(1) this that(3,4), of None "[]"]
    show ?thesis by (rule early)
  qed
  have c: "fst (UpdateEnrollmentRecord env p oldRecord) = Returned (None, Some e)"
    if "Version rec < k" and "k < m"
      and "\<forall>v. Version rec < v \<and> v \<le> k \<longrightarrow> getToken p v \<noteq> None"
      and "\<forall>v token. Version rec < v \<and> v < k \<and> getToken p v = Some token \<longrightarrow>
               snd (phe_UpdateRecord env (Enrollment rec) token) = None"
      and "getToken p k = Some failing"
      and "snd (phe_UpdateRecord env (Enrollment rec) failing) = Some e" for k failing e
  proof -
    from that(2) assms(3) have "k \<le> CurrentVersion p" by simp
    from loop_first_failure [OF that(1) this that(3,4,5,6), of None "[]"]
    show ?thesis by (rule early)
  qed
  from a b c show ?thesis by blast
qed

theorem UpdateEnrollmentRecord_missing_token_witness:
  \<open>getToken (example_protocol\<lparr>UpdateTokens := Some [2 \<mapsto> Some 2]\<rparr>) 3 = None \<and>
   fst (UpdateEnrollmentRecord example_env (example_protocol\<lparr>UpdateTokens := Some [2 \<mapsto> Some 2]\<rparr>)
          ''{"version":1,"enrollment":{}}'') =
     Returned (None, Some (ErrorsNew
       ''protocol does not contain token to update record to the current version'')) \<and>
   fst (UpdateEnrollmentRecord example_env (example_protocol\<lparr>UpdateTokens := None\<rparr>)
          ''{"version":1,"enrollment":{}}'') =
     Returned (None, Some (ErrorsNew
       ''protocol does not contain token to update record to the current version'')) \<and>
   fst (UpdateEnrollmentRecord example_env (example_protocol\<lparr>UpdateTokens := Some [2 \<mapsto> Some 2]\<rparr>)
          ''{"version":1}'') =
     Returned (None, Some (Foreign ''invalid record''))\<close>
proof -
  let ?p = "example_protocol\<lparr>UpdateTokens := Some [2 \<mapsto> Some 2]\<rparr>"
  let ?n = "example_protocol\<lparr>UpdateTokens := None\<rparr>"
  let ?rec = "\<lparr>Version = 1, Enrollment = Some ([] :: nat list)\<rparr>"
  let ?bare = "\<lparr>Version = 1, Enrollment = (None :: nat list option)\<rparr>"
  have d: \<open>json_Unmarshal example_env ''{"version":1,"enrollment":{}}'' = Inr (Some ?rec)\<close>
    by (simp add: example_env_def example_Unmarshal_def)
  have d': \<open>json_Unmarshal example_env ''{"version":1}'' = Inr (Some ?bare)\<close>
    by (simp add: example_env_def example_Unmarshal_def)
  have a: "Version ?rec < 3" and a': "Version ?bare < 3" by simp_all
  have a2: "Version ?rec < 2" by simp
  have b: "3 \<le> CurrentVersion ?p" and bn: "2 \<le> CurrentVersion ?n"
    by (simp_all add: example_protocol_def)
  have c: "getToken ?p 3 = None" and cn: "getToken ?n 2 = None"
    by (simp_all add: getToken_def example_protocol_def)
  have t2: "getToken ?p 2 = Some 2" by (simp add: getToken_def example_protocol_def)
  have ok: "\<forall>v token. Version ?rec < v \<and> v < 3 \<and> getToken ?p v = Some token \<longrightarrow>
      snd (phe_UpdateRecord example_env (Enrollment ?rec) token) = None"
    by (simp add: example_env_def example_UpdateRecord_def)
  have okn: "\<forall>v token. Version ?rec < v \<and> v < 2 \<and> getToken ?n v = Some token \<longrightarrow>
      snd (phe_UpdateRecord example_env (Enrollment ?rec) token) = None"
    by (simp add: example_env_def example_UpdateRecord_def)
  have present: "\<forall>v. Version ?bare < v \<and> v \<le> 2 \<longrightarrow> getToken ?p v \<noteq> None"
  proof (intro allI impI)
    fix v :: int
    assume "Version ?bare < v \<and> v \<le> 2"
    then have "v = 2" by simp
    with t2 show "getToken ?p v \<noteq> None" by simp
  qed
  have before: "\<forall>v token. Version ?bare < v \<and> v < 2 \<and> getToken ?p v = Some token \<longrightarrow>
      snd (phe_UpdateRecord example_env (Enrollment ?bare) token) = None"
  proof (intro allI impI)
    fix v :: int and token :: nat
    assume "Version ?bare < v \<and> v < 2 \<and> getToken ?p v = Some token"
    then have "1 < v \<and> v < 2" by simp
    then have False by arith
    then show "snd (phe_UpdateRecord example_env (Enrollment ?bare) token) = None" ..
  qed
  have fails: "snd (phe_UpdateRecord example_env (Enrollment ?bare) 2) =
      Some (Foreign ''invalid record'')"
    by (simp add: example_env_def example_UpdateRecord_def)
  note missing = UpdateEnrollmentRecord_missing_token [OF d a b c,
      THEN conjunct2, THEN conjunct1, rule_format, of 3]
  note missing_nil = UpdateEnrollmentRecord_missing_token [OF d a2 bn cn,
      THEN conjunct2, THEN conjunct1, rule_format, of 2]
  note failed = UpdateEnrollmentRecord_missing_token [OF d' a' b c,
      THEN conjunct2, THEN conjunct2, rule_format, of 2 2 "Foreign ''invalid record''"]
  have r1: \<open>fst (UpdateEnrollmentRecord example_env ?p ''{"version":1,"enrollment":{}}'') =
     Returned (None, Some (ErrorsNew
       ''protocol does not contain token to update record to the current version''))\<close>
    using missing a c ok by blast
  have r2: \<open>fst (UpdateEnrollmentRecord example_env ?n ''{"version":1,"enrollment":{}}'') =
     Returned (None, Some (ErrorsNew
       ''protocol does not contain token to update record to the current version''))\<close>
    using missing_nil a2 cn okn by blast
  have r3: \<open>fst (UpdateEnrollmentRecord example_env ?p ''{"version":1}'') =
     Returned (None, Some (Foreign ''invalid record''))\<close>
    using failed present before t2 fails by simp
  from c r1 r2 r3 show ?thesis by simp
qed

text \<open>
  C9 as stated fails when a transformation fails before the loop reaches the missing
  token: for the envelope without payload at version 1, with the token of epoch 2
  present and the token of epoch 3 missing, the error returned is the one of
  \<^verbatim>\<open>phe.UpdateRecord\<close>.
\<close>

theorem UpdateEnrollmentRecord_missing_token_counterexample:
  \<open>json_Unmarshal example_env ''{"version":1}'' = Inr (Some \<lparr>Version = 1, Enrollment = None\<rparr>) \<and>
   (1::int) < CurrentVersion (example_protocol\<lparr>UpdateTokens := Some [2 \<mapsto> Some 2]\<rparr>) \<and>
   getToken (example_protocol\<lparr>UpdateTokens := Some [2 \<mapsto> Some 2]\<rparr>) 3 = None \<and>
   UpdateEnrollmentRecord example_env (example_protocol\<lparr>UpdateTokens := Some [2 \<mapsto> Some 2]\<rparr>)
      ''{"version":1}'' =
     (Returned (None, Some (Foreign ''invalid record'')),
      [Call_getToken 2, Call_UpdateRecord None 2])\<close>
  by (simp add: UpdateEnrollmentRecord_def getToken_def example_defs
        UpdateEnrollmentRecord_loop.simps)

text \<open>
  C10. For every record that decodes to an envelope whose version is greater than
  \<^verbatim>\<open>CurrentVersion\<close>, \<^verbatim>\<open>UpdateEnrollmentRecord\<close> fails with the error
  \<^verbatim>\<open>record's version is greater than protocol's version\<close> (the spec's \<open>InvalidVersion\<close>) and
  returns no record; no token is resolved and nothing is transformed.
\<close>

theorem UpdateEnrollmentRecord_future_version:
  assumes "json_Unmarshal env oldRecord = Inr (Some rec)"
    and "Version rec > CurrentVersion p"
  shows "UpdateEnrollmentRecord env p oldRecord =
           (Returned (None,
              Some (ErrorsNew ''record's version is greater than protocol's version'')), [])"
  using assms by (simp add: UpdateEnrollmentRecord_def)

theorem UpdateEnrollmentRecord_future_version_witness:
  \<open>json_Unmarshal example_env ''{"version":5,"enrollment":{}}'' =
      Inr (Some \<lparr>Version = 5, Enrollment = Some []\<rparr>) \<and>
   Version \<lparr>Version = 5, Enrollment = Some ([] :: nat list)\<rparr> > CurrentVersion example_protocol \<and>
   UpdateEnrollmentRecord example_env example_protocol ''{"version":5,"enrollment":{}}'' =
     (Returned (None,
        Some (ErrorsNew ''record's version is greater than protocol's version'')), [])\<close>
proof -
  have d: \<open>json_Unmarshal example_env ''{"version":5,"enrollment":{}}'' =
      Inr (Some \<lparr>Version = 5, Enrollment = Some []\<rparr>)\<close>
    by (simp add: example_env_def example_Unmarshal_def)
  have v: "Version \<lparr>Version = 5, Enrollment = Some ([] :: nat list)\<rparr> >
      CurrentVersion example_protocol"
    by (simp add: example_protocol_def)
  from UpdateEnrollmentRecord_future_version [OF d v] d v show ?thesis by simp
qed

end
